theory Spec2Isabelle
  imports Main "HOL-Library.List_Lexorder" "HOL-Library.Char_ord"
begin

section \<open>The configuration loader of hound (config/config.go)\<close>

text \<open>
  A shallow embedding of \<^verbatim>\<open>config/config.go\<close>. Go values are modelled as follows.
  \<^item> A Go \<^verbatim>\<open>string\<close> is a \<^typ>\<open>string\<close>: a list of bytes.
  \<^item> A pointer \<^verbatim>\<open>*T\<close> is a \<^typ>\<open>'a option\<close>: \<open>None\<close> is the nil pointer, \<open>Some v\<close> a
    pointer to a cell holding \<open>v\<close>. Every cell has one owner; a function that writes
    through a pointer returns the new content of the cell.
  \<^item> A byte slice \<^verbatim>\<open>[]byte\<close> is a \<open>byteslice\<close>: \<open>None\<close> is the nil slice, \<open>Some bs\<close>
    a non-nil slice with the bytes \<open>bs\<close> (so \<open>Some []\<close> is the empty, non-nil slice).
  \<^item> A Go \<^verbatim>\<open>int\<close> is an \<^typ>\<open>int\<close>: the code compares it with zero, stores constants
    and prints it, and never computes with it.
  \<^item> A \<^verbatim>\<open>map[string]*Repo\<close> is an optional association list: \<open>None\<close> is the nil map,
    the keys of the list are the keys of the map.
  \<^item> A call either returns or panics: \<open>Panic\<close> is the run-time panic of a nil
    dereference, \<open>Return v\<close> a normal return. An \<^verbatim>\<open>error\<close> result is an
    \<open>error option\<close>, \<open>None\<close> being Go's nil error.
\<close>

subsection \<open>Constants\<close>

definition defaultMsBetweenPoll :: int where
  "defaultMsBetweenPoll = 30000"

definition defaultMaxConcurrentIndexers :: int where
  "defaultMaxConcurrentIndexers = 2"

definition defaultPushEnabled :: bool where
  "defaultPushEnabled = False"

definition defaultPollEnabled :: bool where
  "defaultPollEnabled = True"

definition defaultTitle :: string where
  "defaultTitle = ''Hound''"

definition defaultVcs :: string where
  "defaultVcs = ''git''"

definition defaultBaseURL :: string where
  "defaultBaseURL = ''{url}/blob/master/{path}{anchor}''"

definition defaultBaseURLAzureDevops :: string where
  "defaultBaseURLAzureDevops = ''{url}/?path=%2F{path}&version=GBmaster&line={anchor}''"

definition defaultAnchor :: string where
  "defaultAnchor = ''#L{line}''"

definition defaultHealthCheckURI :: string where
  "defaultHealthCheckURI = ''/healthz''"

definition defaultAnchorAzureDevops :: string where
  "defaultAnchorAzureDevops = ''&line={line}''"

subsection \<open>Data\<close>

type_synonym byteslice = "string option"

text \<open>\<^verbatim>\<open>type SecretMessage []byte\<close>\<close>

type_synonym SecretMessage = byteslice

datatype error = ErrorString string | PathError string | SyntaxError string | MarshalerError error

datatype 'a outcome = Panic | Return 'a

record URLPattern =
  BaseURL :: string
  Anchor :: string

record Repo =
  URL :: string
  MsBetweenPolls :: int
  Vcs :: string
  VcsConfigMessage :: "SecretMessage option"
  URLPattern :: "URLPattern option"
  ExcludeDotFiles :: bool
  EnablePollUpdates :: "bool option"
  EnablePushUpdates :: "bool option"

type_synonym repomap = "(string \<times> Repo option) list option"

record Config =
  DbPath :: string
  Title :: string
  Repos :: repomap
  MaxConcurrentIndexers :: int
  HealthCheckURI :: string

subsection \<open>Tri-state flags\<close>

text \<open>
  \<^verbatim>\<open>func optionToBool(val *bool, def bool) bool\<close>: the value behind the pointer, the
  default for a nil pointer.
\<close>

fun optionToBool :: "bool option \<Rightarrow> bool \<Rightarrow> bool" where
  "optionToBool None def = def"
| "optionToBool (Some val) def = val"

text \<open>
  The methods of \<^verbatim>\<open>*Repo\<close> are modelled on the record the receiver points to; the
  call sites that can hold a nil \<^verbatim>\<open>*Repo\<close> model the panic themselves.
\<close>

definition PollUpdatesEnabled :: "Repo \<Rightarrow> bool" where
  "PollUpdatesEnabled r = optionToBool (EnablePollUpdates r) defaultPollEnabled"

definition PushUpdatesEnabled :: "Repo \<Rightarrow> bool" where
  "PushUpdatesEnabled r = optionToBool (EnablePushUpdates r) defaultPushEnabled"

subsection \<open>The secret envelope\<close>

text \<open>
  \<^verbatim>\<open>func (s *SecretMessage) MarshalJSON() ([]byte, error)\<close>. The receiver is the
  pointer; the body never reads through it.
\<close>

definition MarshalJSON :: "SecretMessage option \<Rightarrow> byteslice \<times> error option" where
  "MarshalJSON s = (Some [CHR ''{'', CHR ''}''], None)"

text \<open>
  The slice expression \<^verbatim>\<open>x[0:0]\<close>: nil for the nil slice, otherwise the empty slice
  on the array of \<open>x\<close>.
\<close>

fun slice_0_0 :: "byteslice \<Rightarrow> byteslice" where
  "slice_0_0 None = None"
| "slice_0_0 (Some xs) = Some []"

text \<open>
  The built-in \<^verbatim>\<open>append(x, b...)\<close>: with nothing to append it returns \<open>x\<close> itself
  (nil stays nil), otherwise a non-nil slice holding the bytes of \<open>x\<close> and then of \<open>b\<close>.
\<close>

fun bytes_of :: "byteslice \<Rightarrow> string" where
  "bytes_of None = []"
| "bytes_of (Some xs) = xs"

definition append_bytes :: "byteslice \<Rightarrow> byteslice \<Rightarrow> byteslice" where
  "append_bytes x b = (if bytes_of b = [] then x else Some (bytes_of x @ bytes_of b))"

text \<open>
  \<^verbatim>\<open>func (s *SecretMessage) UnmarshalJSON(b []byte) error\<close>. The first argument is the
  receiver \<open>s\<close>; the result is the content of the cell behind \<open>s\<close> after the call and
  the returned error. The guard tests the argument \<open>b\<close>, not the receiver, so a nil
  receiver reaches the assignment \<^verbatim>\<open>*s = append((*s)[0:0], b...)\<close>, whose
  dereferences panic.
\<close>

fun UnmarshalJSON :: "SecretMessage option \<Rightarrow> byteslice \<Rightarrow> (SecretMessage option \<times> error option) outcome" where
  "UnmarshalJSON s None = Return (s, Some (ErrorString ''SecretMessage: UnmarshalJSON on nil pointer''))"
| "UnmarshalJSON None (Some b) = Panic"
| "UnmarshalJSON (Some m) (Some b) = Return (Some (append_bytes (slice_0_0 m) (Some b)), None)"

text \<open>\<^verbatim>\<open>func (r *Repo) VcsConfig() []byte\<close>\<close>

definition VcsConfig :: "Repo \<Rightarrow> byteslice" where
  "VcsConfig r = (case VcsConfigMessage r of None \<Rightarrow> None | Some m \<Rightarrow> m)"

subsection \<open>Defaults\<close>

text \<open>\<^verbatim>\<open>strings.HasPrefix\<close> and \<^verbatim>\<open>strings.Contains\<close>: \<open>substr\<close> occurs in \<open>s\<close>.\<close>

fun HasPrefix :: "string \<Rightarrow> string \<Rightarrow> bool" where
  "HasPrefix s [] = True"
| "HasPrefix [] (p # ps) = False"
| "HasPrefix (c # cs) (p # ps) = (c = p \<and> HasPrefix cs ps)"

fun Contains :: "string \<Rightarrow> string \<Rightarrow> bool" where
  "Contains [] substr = (substr = [])"
| "Contains (c # cs) substr = (HasPrefix (c # cs) substr \<or> Contains cs substr)"

text \<open>
  \<^verbatim>\<open>func initRepo(r *Repo)\<close>, on the record behind \<open>r\<close>. The three statements of the
  body are three steps; the last one allocates a pattern when there is none and
  otherwise writes through the pattern pointer.
\<close>

definition initURLPattern :: "string \<Rightarrow> URLPattern option \<Rightarrow> URLPattern" where
  "initURLPattern url p =
     (case p of
        None \<Rightarrow>
          if Contains url ''visualstudio.com''
          then \<lparr>BaseURL = defaultBaseURLAzureDevops, Anchor = defaultAnchorAzureDevops\<rparr>
          else \<lparr>BaseURL = defaultBaseURL, Anchor = defaultAnchor\<rparr>
      | Some up \<Rightarrow>
          (let up1 = (if BaseURL up = [] then up\<lparr>BaseURL := defaultBaseURL\<rparr> else up)
           in if Anchor up1 = [] then up1\<lparr>Anchor := defaultAnchor\<rparr> else up1))"

definition initRepo :: "Repo \<Rightarrow> Repo" where
  "initRepo r =
     (let r1 = (if MsBetweenPolls r = 0 then r\<lparr>MsBetweenPolls := defaultMsBetweenPoll\<rparr> else r);
          r2 = (if Vcs r1 = [] then r1\<lparr>Vcs := defaultVcs\<rparr> else r1)
      in r2\<lparr>URLPattern := Some (initURLPattern (URL r2) (URLPattern r2))\<rparr>)"

text \<open>\<^verbatim>\<open>func initConfig(c *Config)\<close>\<close>

definition initConfig :: "Config \<Rightarrow> Config" where
  "initConfig c =
     (let c1 = (if MaxConcurrentIndexers c = 0
                then c\<lparr>MaxConcurrentIndexers := defaultMaxConcurrentIndexers\<rparr> else c)
      in if HealthCheckURI c1 = [] then c1\<lparr>HealthCheckURI := defaultHealthCheckURI\<rparr> else c1)"

subsection \<open>The JSON encoding of the repository map\<close>

text \<open>
  \<^verbatim>\<open>ToJSONString\<close> hands the map to \<^verbatim>\<open>json.Marshal\<close> of the Go library. Its encoders
  for the types that occur in a \<^verbatim>\<open>map[string]*Repo\<close> are written out here: strings
  (with the escaping of HTML characters that \<^verbatim>\<open>json.Marshal\<close> switches on),
  integers, booleans, pointers, the two structs with the field names of their tags, the
  \<^verbatim>\<open>Marshaler\<close> hook of \<^verbatim>\<open>*SecretMessage\<close>, and maps with their keys sorted.
\<close>

definition hexdigit :: "nat \<Rightarrow> char" where
  "hexdigit n = ''0123456789abcdef'' ! n"

definition RuneError :: nat where
  "RuneError = 0xFFFD"

text \<open>
  The table \<^verbatim>\<open>first\<close> of \<^verbatim>\<open>unicode/utf8\<close>: for the leading byte of a multi-byte
  sequence, its length and the range accepted for the second byte; \<open>None\<close> for an ASCII
  byte and for a byte that cannot lead.
\<close>

definition first :: "nat \<Rightarrow> (nat \<times> nat \<times> nat) option" where
  "first s0 =
     (if 0xC2 \<le> s0 \<and> s0 \<le> 0xDF then Some (2, 0x80, 0xBF)
      else if s0 = 0xE0 then Some (3, 0xA0, 0xBF)
      else if 0xE1 \<le> s0 \<and> s0 \<le> 0xEC then Some (3, 0x80, 0xBF)
      else if s0 = 0xED then Some (3, 0x80, 0x9F)
      else if 0xEE \<le> s0 \<and> s0 \<le> 0xEF then Some (3, 0x80, 0xBF)
      else if s0 = 0xF0 then Some (4, 0x90, 0xBF)
      else if 0xF1 \<le> s0 \<and> s0 \<le> 0xF3 then Some (4, 0x80, 0xBF)
      else if s0 = 0xF4 then Some (4, 0x80, 0x8F)
      else None)"

text \<open>\<^verbatim>\<open>utf8.DecodeRuneInString\<close>: the first rune of the bytes and its width.\<close>

fun DecodeRune :: "nat list \<Rightarrow> nat \<times> nat" where
  "DecodeRune [] = (RuneError, 0)"
| "DecodeRune (s0 # rest) =
     (case first s0 of
        None \<Rightarrow> (if s0 < 0x80 then s0 else RuneError, 1)
      | Some (sz, lo, hi) \<Rightarrow>
          if length (s0 # rest) < sz then (RuneError, 1)
          else if rest ! 0 < lo \<or> hi < rest ! 0 then (RuneError, 1)
          else if sz \<le> 2 then ((s0 mod 32) * 64 + rest ! 0 mod 64, 2)
          else if rest ! 1 < 0x80 \<or> 0xBF < rest ! 1 then (RuneError, 1)
          else if sz \<le> 3
            then ((s0 mod 16) * 4096 + (rest ! 0 mod 64) * 64 + rest ! 1 mod 64, 3)
          else if rest ! 2 < 0x80 \<or> 0xBF < rest ! 2 then (RuneError, 1)
          else ((s0 mod 8) * 262144 + (rest ! 0 mod 64) * 4096
                  + (rest ! 1 mod 64) * 64 + rest ! 2 mod 64, 4))"

text \<open>
  \<^verbatim>\<open>htmlSafeSet\<close>: the ASCII bytes that a string is written with unchanged, all from
  the space on but the quote, the backslash and the three HTML characters.
\<close>

definition htmlSafe :: "char \<Rightarrow> bool" where
  "htmlSafe c =
     (0x20 \<le> (of_char c :: nat) \<and> c \<noteq> CHR 0x22 \<and> c \<noteq> CHR 0x5C
        \<and> c \<noteq> CHR ''<'' \<and> c \<noteq> CHR ''>'' \<and> c \<noteq> CHR ''&'')"

text \<open>
  The \<^verbatim>\<open>switch\<close> of \<^verbatim>\<open>appendString\<close> for an ASCII byte outside that set (the cases
  for the bytes 8 and 12 are those of Go 1.22 and later).
\<close>

definition escapeByte :: "char \<Rightarrow> string" where
  "escapeByte c =
     (if c = CHR 0x5C \<or> c = CHR 0x22 then [CHR 0x5C, c]
      else if c = CHR 0x08 then [CHR 0x5C, CHR ''b'']
      else if c = CHR 0x0C then [CHR 0x5C, CHR ''f'']
      else if c = CHR 0x0A then [CHR 0x5C, CHR ''n'']
      else if c = CHR 0x0D then [CHR 0x5C, CHR ''r'']
      else if c = CHR 0x09 then [CHR 0x5C, CHR ''t'']
      else [CHR 0x5C, CHR ''u'', CHR ''0'', CHR ''0'',
            hexdigit ((of_char c :: nat) div 16), hexdigit ((of_char c :: nat) mod 16)])"

text \<open>
  The loop of \<^verbatim>\<open>appendString\<close> between the two quotes. The source copies the bytes it
  leaves unchanged in runs; here they are copied one rune at a time.
\<close>

function appendRunes :: "string \<Rightarrow> string" where
  "appendRunes [] = []"
| "appendRunes (c # cs) =
     (if (of_char c :: nat) < 0x80
      then (if htmlSafe c then [c] else escapeByte c) @ appendRunes cs
      else
        (case DecodeRune (map of_char (take 4 (c # cs))) of
           (r, sz) \<Rightarrow>
             if r = RuneError \<and> sz = 1
             then [CHR 0x5C, CHR ''u'', CHR ''f'', CHR ''f'', CHR ''f'', CHR ''d'']
                    @ appendRunes cs
             else if r = 0x2028 \<or> r = 0x2029
             then [CHR 0x5C, CHR ''u'', CHR ''2'', CHR ''0'', CHR ''2'', hexdigit (r mod 16)]
                    @ appendRunes (drop (sz - 1) cs)
             else c # take (sz - 1) cs @ appendRunes (drop (sz - 1) cs)))"
  by pat_completeness simp_all
termination
proof (relation "measure length")
  show "wf (measure length)"
    by simp
next
  fix c :: char and cs :: string
  show "(cs, c # cs) \<in> measure length"
    by simp
  then show "(cs, c # cs) \<in> measure length" .
next
  fix c :: char and cs :: string and xa :: nat
  show "(drop (xa - 1) cs, c # cs) \<in> measure length"
    by simp
  then show "(drop (xa - 1) cs, c # cs) \<in> measure length" .
qed

declare appendRunes.simps [simp del]

definition appendString :: "string \<Rightarrow> string" where
  "appendString src = CHR 0x22 # appendRunes src @ [CHR 0x22]"

text \<open>
  \<^verbatim>\<open>strconv.AppendInt(b, i, 10)\<close>: the decimal digits of the absolute value, read from
  the table of digits, after a minus sign for a negative number.
\<close>

fun digits :: "nat \<Rightarrow> string" where
  "digits n =
     (if n < 10 then [''0123456789'' ! n]
      else digits (n div 10) @ [''0123456789'' ! (n mod 10)])"

declare digits.simps [simp del]

definition formatInt :: "int \<Rightarrow> string" where
  "formatInt i = (if i < 0 then CHR ''-'' # digits (nat (- i)) else digits (nat i))"

definition encodeBool :: "bool \<Rightarrow> string" where
  "encodeBool b = (if b then ''true'' else ''false'')"

definition encodeBoolPtr :: "bool option \<Rightarrow> string" where
  "encodeBoolPtr p = (case p of None \<Rightarrow> ''null'' | Some b \<Rightarrow> encodeBool b)"

definition encodeURLPattern :: "URLPattern \<Rightarrow> string" where
  \<open>encodeURLPattern p =
     ''{"base-url":'' @ appendString (BaseURL p) @ '',"anchor":'' @ appendString (Anchor p) @ ''}''\<close>

text \<open>
  \<^verbatim>\<open>marshalerEncoder\<close>: a nil pointer is written as \<^verbatim>\<open>null\<close>; otherwise the bytes
  that \<^verbatim>\<open>MarshalJSON\<close> returns are written, compacted (which leaves the literal
  \<^verbatim>\<open>{}\<close> as it is), and an error of the method fails the whole encoding.
\<close>

definition encodeSecret :: "SecretMessage option \<Rightarrow> error + string" where
  "encodeSecret s =
     (case s of
        None \<Rightarrow> Inr ''null''
      | Some m \<Rightarrow>
          (case MarshalJSON s of
             (b, None) \<Rightarrow> Inr (bytes_of b)
           | (b, Some err) \<Rightarrow> Inl (MarshalerError err)))"

definition encodeRepo :: "Repo \<Rightarrow> error + string" where
  \<open>encodeRepo r =
     (case encodeSecret (VcsConfigMessage r) of
        Inl err \<Rightarrow> Inl err
      | Inr secret \<Rightarrow>
          Inr (''{"url":'' @ appendString (URL r)
            @ '',"ms-between-poll":'' @ formatInt (MsBetweenPolls r)
            @ '',"vcs":'' @ appendString (Vcs r)
            @ '',"vcs-config":'' @ secret
            @ '',"url-pattern":''
            @ (case URLPattern r of None \<Rightarrow> ''null'' | Some p \<Rightarrow> encodeURLPattern p)
            @ '',"exclude-dot-files":'' @ encodeBool (ExcludeDotFiles r)
            @ '',"enable-poll-updates":'' @ encodeBoolPtr (EnablePollUpdates r)
            @ '',"enable-push-updates":'' @ encodeBoolPtr (EnablePushUpdates r)
            @ ''}''))\<close>

definition encodeRepoPtr :: "Repo option \<Rightarrow> error + string" where
  "encodeRepoPtr p = (case p of None \<Rightarrow> Inr ''null'' | Some r \<Rightarrow> encodeRepo r)"

text \<open>The entries of a map, in the order given, separated by commas.\<close>

fun encodeEntries :: "(string \<times> Repo option) list \<Rightarrow> error + string" where
  "encodeEntries [] = Inr []"
| "encodeEntries ((k, v) # kvs) =
     (case encodeRepoPtr v of
        Inl err \<Rightarrow> Inl err
      | Inr val \<Rightarrow>
          (case encodeEntries kvs of
             Inl err \<Rightarrow> Inl err
           | Inr rest \<Rightarrow>
               Inr (appendString k @ '':'' @ val @ (if kvs = [] then [] else '','' @ rest))))"

text \<open>
  \<^verbatim>\<open>json.Marshal(c.Repos)\<close>: \<^verbatim>\<open>null\<close> for the nil map, otherwise the entries in the
  order of their keys, compared as byte strings.
\<close>

definition json_Marshal :: "repomap \<Rightarrow> error + string" where
  "json_Marshal m =
     (case m of
        None \<Rightarrow> Inr ''null''
      | Some kvs \<Rightarrow>
          (case encodeEntries (sort_key fst kvs) of
             Inl err \<Rightarrow> Inl err
           | Inr body \<Rightarrow> Inr (''{'' @ body @ ''}'')))"

text \<open>\<^verbatim>\<open>func (c *Config) ToJSONString() (string, error)\<close>\<close>

definition ToJSONString :: "Config \<Rightarrow> string \<times> error option" where
  "ToJSONString c =
     (case json_Marshal (Repos c) of
        Inl err \<Rightarrow> ([], Some err)
      | Inr b \<Rightarrow> (b, None))"

subsection \<open>Loading\<close>

text \<open>
  What \<^verbatim>\<open>LoadFromFile\<close> asks of the operating system and of the Go library is a
  parameter of the model: opening a file gives its content or an error, decoding JSON
  into a Config gives the Config after the call and the error returned, and the
  functions of \<^verbatim>\<open>path/filepath\<close> are those of the platform.
\<close>

record env =
  os_Open :: "string \<Rightarrow> error + string"
  json_Decode :: "string \<Rightarrow> Config \<Rightarrow> Config \<times> error option"
  filepath_IsAbs :: "string \<Rightarrow> bool"
  filepath_Abs :: "string \<Rightarrow> error + string"
  filepath_Join :: "string \<Rightarrow> string \<Rightarrow> string"
  filepath_Dir :: "string \<Rightarrow> string"

text \<open>
  The loop \<^verbatim>\<open>for _, repo := range c.Repos { initRepo(repo) }\<close>. Go visits the entries
  in an order of its choice; \<^verbatim>\<open>initRepo\<close> writes to the visited entry only and
  dereferences its argument, so in any order the loop panics when some entry is nil and
  otherwise leaves every entry initialised.
\<close>

fun initRepos :: "(string \<times> Repo option) list \<Rightarrow> (string \<times> Repo option) list outcome" where
  "initRepos [] = Return []"
| "initRepos ((k, None) # kvs) = Panic"
| "initRepos ((k, Some r) # kvs) =
     (case initRepos kvs of
        Panic \<Rightarrow> Panic
      | Return kvs' \<Rightarrow> Return ((k, Some (initRepo r)) # kvs'))"

text \<open>
  \<^verbatim>\<open>func (c *Config) LoadFromFile(filename string) error\<close>: the Config behind \<open>c\<close>
  after the call, and the error returned.
\<close>

definition LoadFromFile :: "env \<Rightarrow> Config \<Rightarrow> string \<Rightarrow> (Config \<times> error option) outcome" where
  "LoadFromFile e c filename =
     (case os_Open e filename of
        Inl err \<Rightarrow> Return (c, Some err)
      | Inr r \<Rightarrow>
          (case json_Decode e r c of
             (c0, Some err) \<Rightarrow> Return (c0, Some err)
           | (c0, None) \<Rightarrow>
               (let c1 = (if Title c0 = [] then c0\<lparr>Title := defaultTitle\<rparr> else c0)
                in case (if \<not> filepath_IsAbs e (DbPath c1)
                         then (case filepath_Abs e
                                      (filepath_Join e (filepath_Dir e filename) (DbPath c1)) of
                                 Inl err \<Rightarrow> Inl err
                               | Inr path \<Rightarrow> Inr (c1\<lparr>DbPath := path\<rparr>))
                         else Inr c1) of
                     Inl err \<Rightarrow> Return (c1, Some err)
                   | Inr c2 \<Rightarrow>
                       (case Repos c2 of
                          None \<Rightarrow> Return (initConfig c2, None)
                        | Some kvs \<Rightarrow>
                            (case initRepos kvs of
                               Panic \<Rightarrow> Panic
                             | Return kvs' \<Rightarrow>
                                 Return (initConfig (c2\<lparr>Repos := Some kvs'\<rparr>), None))))))"

subsection \<open>Values for the examples\<close>

text \<open>The zero values of \<^verbatim>\<open>Repo\<close> and \<^verbatim>\<open>Config\<close>, which a decoder starts from.\<close>

definition zeroRepo :: Repo where
  "zeroRepo = \<lparr>URL = [], MsBetweenPolls = 0, Vcs = [], VcsConfigMessage = None,
     URLPattern = None, ExcludeDotFiles = False, EnablePollUpdates = None,
     EnablePushUpdates = None\<rparr>"

definition zeroConfig :: Config where
  "zeroConfig = \<lparr>DbPath = [], Title = [], Repos = None, MaxConcurrentIndexers = 0,
     HealthCheckURI = []\<rparr>"

text \<open>
  A small platform for the examples of loading: two files, whose decoding sets the
  database path and nothing else, and paths in the manner of Unix, with the working
  directory \<^verbatim>\<open>/cwd\<close>.
\<close>

definition exampleEnv :: env where
  \<open>exampleEnv =
     \<lparr>os_Open = (\<lambda>name.
          if name = ''/a/b/config.json'' then Inr ''{"dbpath":"data"}''
          else if name = ''/a/b/abs.json'' then Inr ''{"dbpath":"/abs/data"}''
          else Inl (PathError name)),
      json_Decode = (\<lambda>content c.
          if content = ''{"dbpath":"data"}'' then (c\<lparr>DbPath := ''data''\<rparr>, None)
          else if content = ''{"dbpath":"/abs/data"}'' then (c\<lparr>DbPath := ''/abs/data''\<rparr>, None)
          else (c, Some (SyntaxError content))),
      filepath_IsAbs = (\<lambda>p. HasPrefix p ''/''),
      filepath_Abs = (\<lambda>p. Inr (if HasPrefix p ''/'' then p else ''/cwd/'' @ p)),
      filepath_Join = (\<lambda>d p. d @ ''/'' @ p),
      filepath_Dir = (\<lambda>name.
          if name = ''/a/b/config.json'' \<or> name = ''/a/b/abs.json'' then ''/a/b'' else ''.'')\<rparr>\<close>

text \<open>
  Replacing the bytes of the secret envelopes: \<open>withSecrets f m\<close> is the map \<open>m\<close> with
  the envelope of every repository that has one holding \<open>f k old\<close>, for its name \<open>k\<close>
  and its former bytes \<open>old\<close>. Which repositories have an envelope does not change.
\<close>

definition withSecret :: "(SecretMessage \<Rightarrow> SecretMessage) \<Rightarrow> Repo \<Rightarrow> Repo" where
  "withSecret g r = r\<lparr>VcsConfigMessage := map_option g (VcsConfigMessage r)\<rparr>"

definition withSecrets :: "(string \<Rightarrow> SecretMessage \<Rightarrow> SecretMessage) \<Rightarrow> repomap \<Rightarrow> repomap" where
  "withSecrets f m = map_option (map (\<lambda>(k, p). (k, map_option (withSecret (f k)) p))) m"

text \<open>
  For stating what the output is: the strings of a list, with a comma between each two.
\<close>

fun joinComma :: "string list \<Rightarrow> string" where
  "joinComma [] = []"
| "joinComma [x] = x"
| "joinComma (x # y # ys) = x @ '','' @ joinComma (y # ys)"

section \<open>Properties\<close>

subsection \<open>Substrings\<close>

lemma HasPrefix_iff: "HasPrefix s p \<longleftrightarrow> (\<exists>post. s = p @ post)"
  by (induction s p rule: HasPrefix.induct) auto

lemma Contains_iff: "Contains s substr \<longleftrightarrow> (\<exists>pre post. s = pre @ substr @ post)"
proof (induction s)
  case Nil
  then show ?case by simp
next
  case (Cons c cs)
  show ?case
  proof
    assume "Contains (c # cs) substr"
    then consider "HasPrefix (c # cs) substr" | "Contains cs substr" by auto
    then show "\<exists>pre post. c # cs = pre @ substr @ post"
    proof cases
      case 1
      then obtain post where "c # cs = substr @ post" by (auto simp: HasPrefix_iff)
      then have "c # cs = [] @ substr @ post" by simp
      then show ?thesis by blast
    next
      case 2
      with Cons.IH obtain pre post where "cs = pre @ substr @ post" by blast
      then have "c # cs = (c # pre) @ substr @ post" by simp
      then show ?thesis by blast
    qed
  next
    assume "\<exists>pre post. c # cs = pre @ substr @ post"
    then obtain pre post where eq: "c # cs = pre @ substr @ post" by blast
    show "Contains (c # cs) substr"
    proof (cases pre)
      case Nil
      with eq have "HasPrefix (c # cs) substr" by (auto simp: HasPrefix_iff)
      then show ?thesis by simp
    next
      case (Cons a pre')
      with eq have "cs = pre' @ substr @ post" by simp
      with Cons.IH have "Contains cs substr" by blast
      then show ?thesis by simp
    qed
  qed
qed

subsection \<open>Defaults of a repository\<close>

text \<open>
  Claim C5. For every repository, \<^verbatim>\<open>initRepo\<close> sets the poll interval to 30000 when
  it is zero and leaves any other value as it is, and sets the version-control kind to
  \<^verbatim>\<open>git\<close> when it is the empty string and leaves any other value as it is.
\<close>
theorem initRepo_poll_and_vcs_defaults:
  "MsBetweenPolls (initRepo r) = (if MsBetweenPolls r = 0 then 30000 else MsBetweenPolls r)
   \<and> Vcs (initRepo r) = (if Vcs r = [] then ''git'' else Vcs r)"
  by (simp add: initRepo_def Let_def defaultMsBetweenPoll_def defaultVcs_def)

text \<open>
  Claim C6. \<^verbatim>\<open>PollUpdatesEnabled\<close> is true when the flag \<^verbatim>\<open>enable-poll-updates\<close> is
  nil and the flag's value otherwise; \<^verbatim>\<open>PushUpdatesEnabled\<close> is false when the flag
  \<^verbatim>\<open>enable-push-updates\<close> is nil and the flag's value otherwise; \<^verbatim>\<open>initRepo\<close> writes
  neither flag, so nil, true and false stay apart.
\<close>
theorem update_flags_tristate:
  "PollUpdatesEnabled r = (case EnablePollUpdates r of None \<Rightarrow> True | Some b \<Rightarrow> b)
   \<and> PushUpdatesEnabled r = (case EnablePushUpdates r of None \<Rightarrow> False | Some b \<Rightarrow> b)
   \<and> EnablePollUpdates (initRepo r) = EnablePollUpdates r
   \<and> EnablePushUpdates (initRepo r) = EnablePushUpdates r"
  by (simp add: PollUpdatesEnabled_def PushUpdatesEnabled_def defaultPollEnabled_def
      defaultPushEnabled_def initRepo_def Let_def split: option.split)


lemma initRepo_URLPattern:
  "URLPattern (initRepo r) = Some (initURLPattern (URL r) (URLPattern r))"
  by (simp add: initRepo_def Let_def)

text \<open>
  Claim C3. For a repository with no URL pattern, \<^verbatim>\<open>initRepo\<close> chooses the pattern by a
  substring test on the URL: when \<^verbatim>\<open>visualstudio.com\<close> occurs in it, the Azure DevOps
  base URL and anchor; otherwise the base URL \<^verbatim>\<open>{url}/blob/master/{path}{anchor}\<close> and
  the anchor \<^verbatim>\<open>#L{line}\<close>.
\<close>
theorem initRepo_absent_url_pattern:
  \<open>URLPattern r = None \<Longrightarrow>
     ((\<exists>pre post. URL r = pre @ ''visualstudio.com'' @ post) \<longrightarrow>
        URLPattern (initRepo r) =
          Some \<lparr>BaseURL = ''{url}/?path=%2F{path}&version=GBmaster&line={anchor}'',
                Anchor = ''&line={line}''\<rparr>)
     \<and> (\<not> (\<exists>pre post. URL r = pre @ ''visualstudio.com'' @ post) \<longrightarrow>
        URLPattern (initRepo r) =
          Some \<lparr>BaseURL = ''{url}/blob/master/{path}{anchor}'', Anchor = ''#L{line}''\<rparr>)\<close>
  unfolding initRepo_URLPattern Contains_iff [symmetric]
  by (simp add: initURLPattern_def defaultBaseURLAzureDevops_def defaultAnchorAzureDevops_def
      defaultBaseURL_def defaultAnchor_def)

theorem initRepo_absent_url_pattern_witness:
  \<open>URLPattern (zeroRepo\<lparr>URL := ''https://acme.visualstudio.com/_git/app''\<rparr>) = None
   \<and> (\<exists>pre post. URL (zeroRepo\<lparr>URL := ''https://acme.visualstudio.com/_git/app''\<rparr>)
         = pre @ ''visualstudio.com'' @ post)
   \<and> URLPattern (initRepo (zeroRepo\<lparr>URL := ''https://acme.visualstudio.com/_git/app''\<rparr>)) =
       Some \<lparr>BaseURL = ''{url}/?path=%2F{path}&version=GBmaster&line={anchor}'',
             Anchor = ''&line={line}''\<rparr>
   \<and> URLPattern (zeroRepo\<lparr>URL := ''https://github.com/a/b''\<rparr>) = None
   \<and> \<not> (\<exists>pre post. URL (zeroRepo\<lparr>URL := ''https://github.com/a/b''\<rparr>)
         = pre @ ''visualstudio.com'' @ post)
   \<and> URLPattern (initRepo (zeroRepo\<lparr>URL := ''https://github.com/a/b''\<rparr>)) =
       Some \<lparr>BaseURL = ''{url}/blob/master/{path}{anchor}'', Anchor = ''#L{line}''\<rparr>\<close>
proof -
  let ?az = "zeroRepo\<lparr>URL := ''https://acme.visualstudio.com/_git/app''\<rparr>"
  let ?gh = "zeroRepo\<lparr>URL := ''https://github.com/a/b''\<rparr>"
  have az_none: "URLPattern ?az = None" and gh_none: "URLPattern ?gh = None"
    by (simp_all add: zeroRepo_def)
  have "Contains (URL ?az) ''visualstudio.com''"
    by (simp add: zeroRepo_def)
  then have az_marker: "\<exists>pre post. URL ?az = pre @ ''visualstudio.com'' @ post"
    unfolding Contains_iff .
  have "\<not> Contains (URL ?gh) ''visualstudio.com''"
    by (simp add: zeroRepo_def)
  then have gh_marker: "\<not> (\<exists>pre post. URL ?gh = pre @ ''visualstudio.com'' @ post)"
    unfolding Contains_iff .
  from initRepo_absent_url_pattern [OF az_none] initRepo_absent_url_pattern [OF gh_none]
    az_none gh_none az_marker gh_marker
  show ?thesis by blast
qed

text \<open>
  Claim C4. For a repository with a URL pattern in which exactly one of the base URL and
  the anchor is empty, \<^verbatim>\<open>initRepo\<close> fills the empty one with its generic default and
  keeps the other as supplied; whatever the URL of the repository, the field it fills is
  not the Azure DevOps one.
\<close>
theorem initRepo_partial_url_pattern:
  \<open>URLPattern r = Some p \<Longrightarrow> (BaseURL p = []) \<noteq> (Anchor p = []) \<Longrightarrow>
     URLPattern (initRepo r) =
       Some \<lparr>BaseURL = (if BaseURL p = [] then ''{url}/blob/master/{path}{anchor}'' else BaseURL p),
             Anchor = (if Anchor p = [] then ''#L{line}'' else Anchor p)\<rparr>
     \<and> (BaseURL p = [] \<longrightarrow>
          map_option BaseURL (URLPattern (initRepo r)) \<noteq> Some defaultBaseURLAzureDevops)
     \<and> (Anchor p = [] \<longrightarrow>
          map_option Anchor (URLPattern (initRepo r)) \<noteq> Some defaultAnchorAzureDevops)\<close>
  unfolding initRepo_URLPattern
  by (cases p) (auto simp add: initURLPattern_def Let_def defaultBaseURL_def defaultAnchor_def
      defaultBaseURLAzureDevops_def defaultAnchorAzureDevops_def)


theorem initRepo_partial_url_pattern_witness:
  \<open>URLPattern (zeroRepo\<lparr>URL := ''https://acme.visualstudio.com/_git/app'',
        URLPattern := Some \<lparr>BaseURL = ''{url}/src/{path}'', Anchor = []\<rparr>\<rparr>)
     = Some \<lparr>BaseURL = ''{url}/src/{path}'', Anchor = []\<rparr>
   \<and> (BaseURL \<lparr>BaseURL = ''{url}/src/{path}'', Anchor = []\<rparr> = [])
       \<noteq> (Anchor \<lparr>BaseURL = ''{url}/src/{path}'', Anchor = []\<rparr> = [])
   \<and> Contains (URL (zeroRepo\<lparr>URL := ''https://acme.visualstudio.com/_git/app'',
        URLPattern := Some \<lparr>BaseURL = ''{url}/src/{path}'', Anchor = []\<rparr>\<rparr>)) ''visualstudio.com''
   \<and> URLPattern (initRepo (zeroRepo\<lparr>URL := ''https://acme.visualstudio.com/_git/app'',
        URLPattern := Some \<lparr>BaseURL = ''{url}/src/{path}'', Anchor = []\<rparr>\<rparr>))
     = Some \<lparr>BaseURL = ''{url}/src/{path}'', Anchor = ''#L{line}''\<rparr>\<close>
proof -
  let ?p = "\<lparr>BaseURL = ''{url}/src/{path}'', Anchor = []\<rparr>"
  let ?r = "zeroRepo\<lparr>URL := ''https://acme.visualstudio.com/_git/app'', URLPattern := Some ?p\<rparr>"
  have supplied: "URLPattern ?r = Some ?p"
    by simp
  have one_empty: "(BaseURL ?p = []) \<noteq> (Anchor ?p = [])"
    by simp
  have azure: "Contains (URL ?r) ''visualstudio.com''"
    by simp
  from initRepo_partial_url_pattern [OF supplied one_empty]
  have "URLPattern (initRepo ?r) = Some \<lparr>BaseURL = ''{url}/src/{path}'', Anchor = ''#L{line}''\<rparr>"
    by simp
  with supplied one_empty azure show ?thesis
    by blast
qed

lemma initURLPattern_idem:
  "initURLPattern url (Some (initURLPattern url p)) = initURLPattern url p"
  by (cases p)
    (simp_all add: initURLPattern_def Let_def defaultBaseURL_def defaultAnchor_def
      defaultBaseURLAzureDevops_def defaultAnchorAzureDevops_def)

lemma initRepo_fields:
  "initRepo r =
     r\<lparr>MsBetweenPolls := (if MsBetweenPolls r = 0 then defaultMsBetweenPoll else MsBetweenPolls r),
       Vcs := (if Vcs r = [] then defaultVcs else Vcs r),
       URLPattern := Some (initURLPattern (URL r) (URLPattern r))\<rparr>"
  by (simp add: initRepo_def Let_def)

text \<open>
  Claim C10. \<^verbatim>\<open>initRepo\<close> is idempotent, and it changes no field but the poll interval,
  the version-control kind and the URL pattern: the URL, the flag for dot files, the two
  update flags and the secret envelope are as before.
\<close>
theorem initRepo_idempotent:
  "initRepo (initRepo r) = initRepo r
   \<and> initRepo r = r\<lparr>MsBetweenPolls := MsBetweenPolls (initRepo r), Vcs := Vcs (initRepo r),
                     URLPattern := URLPattern (initRepo r)\<rparr>
   \<and> URL (initRepo r) = URL r
   \<and> ExcludeDotFiles (initRepo r) = ExcludeDotFiles r
   \<and> EnablePollUpdates (initRepo r) = EnablePollUpdates r
   \<and> EnablePushUpdates (initRepo r) = EnablePushUpdates r
   \<and> VcsConfigMessage (initRepo r) = VcsConfigMessage r"
proof -
  have twice: "initRepo (initRepo r) = initRepo r"
    unfolding initRepo_fields [of "initRepo r"]
    by (simp add: initRepo_fields initURLPattern_idem defaultMsBetweenPoll_def defaultVcs_def)
  have only: "initRepo r = r\<lparr>MsBetweenPolls := MsBetweenPolls (initRepo r), Vcs := Vcs (initRepo r),
                     URLPattern := URLPattern (initRepo r)\<rparr>"
    by (simp add: initRepo_fields)
  have rest: "URL (initRepo r) = URL r" "ExcludeDotFiles (initRepo r) = ExcludeDotFiles r"
    "EnablePollUpdates (initRepo r) = EnablePollUpdates r"
    "EnablePushUpdates (initRepo r) = EnablePushUpdates r"
    "VcsConfigMessage (initRepo r) = VcsConfigMessage r"
    by (simp_all add: initRepo_fields)
  from twice only rest show ?thesis
    by blast
qed

subsection \<open>The secret envelope\<close>

lemma UnmarshalJSON_stores_bytes:
  "UnmarshalJSON (Some m) (Some b) = Return (Some m', None)
     \<longleftrightarrow> m' = append_bytes (slice_0_0 m) (Some b)"
  by auto

lemma append_bytes_slice_0_0: "bytes_of (append_bytes (slice_0_0 m) (Some b)) = b"
  by (cases m) (simp_all add: append_bytes_def)

lemma VcsConfig_after_UnmarshalJSON:
  "UnmarshalJSON (Some m) (Some b) = Return (s', err) \<Longrightarrow>
     err = None \<and> bytes_of (VcsConfig (r\<lparr>VcsConfigMessage := s'\<rparr>)) = b"
  by (auto simp add: VcsConfig_def append_bytes_slice_0_0)

lemma VcsConfig_nil: "VcsConfigMessage r = None \<Longrightarrow> VcsConfig r = None"
  by (simp add: VcsConfig_def)

text \<open>
  Claim C1. For every \<^verbatim>\<open>SecretMessage\<close>, whatever bytes it holds, \<^verbatim>\<open>MarshalJSON\<close>
  returns the two bytes \<^verbatim>\<open>{}\<close> and no error; in particular an envelope that has
  decoded the bytes \<^verbatim>\<open>{"x":1}\<close> holds them and still encodes to \<^verbatim>\<open>{}\<close>, not to
  \<^verbatim>\<open>{"x":1}\<close>.
\<close>
theorem MarshalJSON_always_empty_object:
  \<open>MarshalJSON s = (Some ''{}'', None)
   \<and> (case UnmarshalJSON (Some m) (Some ''{"x":1}'') of
        Panic \<Rightarrow> False
      | Return (s', err) \<Rightarrow>
          err = None \<and> map_option bytes_of s' = Some ''{"x":1}''
          \<and> MarshalJSON s' = (Some ''{}'', None)
          \<and> fst (MarshalJSON s') \<noteq> Some ''{"x":1}'')\<close>
  by (simp add: MarshalJSON_def append_bytes_slice_0_0)

text \<open>
  Claim C8, the part about a decode without a receiving target. The guard of
  \<^verbatim>\<open>UnmarshalJSON\<close> tests the bytes \<open>b\<close> instead of the receiver: called on a nil
  receiver with the bytes \<^verbatim>\<open>{"x":1}\<close> it panics rather than return its error, and it
  returns that error, storing nothing, when a receiver is there and \<open>b\<close> is the nil
  slice. (What the claim says of storing and reading the bytes holds: the three lemmas
  above.)
\<close>
theorem UnmarshalJSON_nil_receiver:
  \<open>UnmarshalJSON None (Some ''{"x":1}'') = Panic
   \<and> UnmarshalJSON (Some m) None
       = Return (Some m, Some (ErrorString ''SecretMessage: UnmarshalJSON on nil pointer''))\<close>
  by simp

subsection \<open>Loading\<close>

lemma initConfig_fields:
  "DbPath (initConfig c) = DbPath c" "Title (initConfig c) = Title c"
  "Repos (initConfig c) = Repos c"
  "MaxConcurrentIndexers (initConfig c) =
     (if MaxConcurrentIndexers c = 0 then defaultMaxConcurrentIndexers else MaxConcurrentIndexers c)"
  "HealthCheckURI (initConfig c) =
     (if HealthCheckURI c = [] then defaultHealthCheckURI else HealthCheckURI c)"
  by (simp_all add: initConfig_def Let_def)

lemma LoadFromFile_success:
  assumes "LoadFromFile e c filename = Return (c', None)"
  shows "\<exists>content d.
      os_Open e filename = Inr content \<and> json_Decode e content c = (d, None)
      \<and> Title c' = (if Title d = [] then defaultTitle else Title d)
      \<and> (if filepath_IsAbs e (DbPath d) then DbPath c' = DbPath d
          else filepath_Abs e (filepath_Join e (filepath_Dir e filename) (DbPath d))
                 = Inr (DbPath c'))
      \<and> MaxConcurrentIndexers c' =
          (if MaxConcurrentIndexers d = 0 then defaultMaxConcurrentIndexers
           else MaxConcurrentIndexers d)
      \<and> HealthCheckURI c' =
          (if HealthCheckURI d = [] then defaultHealthCheckURI else HealthCheckURI d)"
proof (cases "os_Open e filename")
  case (Inl err)
  with assms show ?thesis
    by (simp add: LoadFromFile_def)
next
  case (Inr content)
  obtain d derr where dec: "json_Decode e content c = (d, derr)"
    by (cases "json_Decode e content c")
  show ?thesis
  proof (cases derr)
    case (Some err)
    with assms Inr dec show ?thesis
      by (simp add: LoadFromFile_def)
  next
    case None
    with assms Inr dec show ?thesis
      by (auto simp add: LoadFromFile_def Let_def initConfig_fields
          split: sum.splits option.splits outcome.splits if_splits)
  qed
qed

text \<open>
  Claim C7. After a successful \<^verbatim>\<open>LoadFromFile\<close>: when the database path that was
  decoded is not absolute, the database path of the Config is what \<^verbatim>\<open>filepath.Abs\<close>
  makes of the directory of the configuration file joined with the decoded path; when it
  is absolute, it is the decoded path unchanged. (In the example platform the file
  \<^verbatim>\<open>/a/b/config.json\<close> with the path \<^verbatim>\<open>data\<close> gives \<^verbatim>\<open>/a/b/data\<close>, and the path
  \<^verbatim>\<open>/abs/data\<close> stays.)
\<close>
theorem LoadFromFile_resolves_dbpath:
  assumes "LoadFromFile e c filename = Return (c', None)"
  shows "\<exists>content d.
      os_Open e filename = Inr content \<and> json_Decode e content c = (d, None)
      \<and> (if filepath_IsAbs e (DbPath d) then DbPath c' = DbPath d
          else filepath_Abs e (filepath_Join e (filepath_Dir e filename) (DbPath d))
                 = Inr (DbPath c'))"
  using LoadFromFile_success [OF assms] by blast


theorem LoadFromFile_resolves_dbpath_witness:
  "LoadFromFile exampleEnv zeroConfig ''/a/b/config.json'' =
     Return (\<lparr>DbPath = ''/a/b/data'', Title = ''Hound'', Repos = None,
        MaxConcurrentIndexers = 2, HealthCheckURI = ''/healthz''\<rparr>, None)
   \<and> (\<exists>content d.
        os_Open exampleEnv ''/a/b/config.json'' = Inr content
        \<and> json_Decode exampleEnv content zeroConfig = (d, None)
        \<and> DbPath d = ''data'' \<and> \<not> filepath_IsAbs exampleEnv (DbPath d)
        \<and> filepath_Abs exampleEnv
              (filepath_Join exampleEnv (filepath_Dir exampleEnv ''/a/b/config.json'') (DbPath d))
            = Inr ''/a/b/data'')
   \<and> LoadFromFile exampleEnv zeroConfig ''/a/b/abs.json'' =
     Return (\<lparr>DbPath = ''/abs/data'', Title = ''Hound'', Repos = None,
        MaxConcurrentIndexers = 2, HealthCheckURI = ''/healthz''\<rparr>, None)
   \<and> (\<exists>content d.
        os_Open exampleEnv ''/a/b/abs.json'' = Inr content
        \<and> json_Decode exampleEnv content zeroConfig = (d, None)
        \<and> DbPath d = ''/abs/data'' \<and> filepath_IsAbs exampleEnv (DbPath d))"
proof -
  let ?rel = "\<lparr>DbPath = ''/a/b/data'', Title = ''Hound'', Repos = None,
        MaxConcurrentIndexers = 2, HealthCheckURI = ''/healthz''\<rparr>"
  let ?abs = "\<lparr>DbPath = ''/abs/data'', Title = ''Hound'', Repos = None,
        MaxConcurrentIndexers = 2, HealthCheckURI = ''/healthz''\<rparr>"
  have load_rel: "LoadFromFile exampleEnv zeroConfig ''/a/b/config.json'' = Return (?rel, None)"
    by (simp add: LoadFromFile_def exampleEnv_def zeroConfig_def initConfig_def Let_def
        defaultTitle_def defaultMaxConcurrentIndexers_def defaultHealthCheckURI_def)
  have load_abs: "LoadFromFile exampleEnv zeroConfig ''/a/b/abs.json'' = Return (?abs, None)"
    by (simp add: LoadFromFile_def exampleEnv_def zeroConfig_def initConfig_def Let_def
        defaultTitle_def defaultMaxConcurrentIndexers_def defaultHealthCheckURI_def)
  from LoadFromFile_resolves_dbpath [OF load_rel]
  obtain content d where rel:
    "os_Open exampleEnv ''/a/b/config.json'' = Inr content"
    "json_Decode exampleEnv content zeroConfig = (d, None)"
    "if filepath_IsAbs exampleEnv (DbPath d) then DbPath ?rel = DbPath d
     else filepath_Abs exampleEnv
            (filepath_Join exampleEnv (filepath_Dir exampleEnv ''/a/b/config.json'') (DbPath d))
          = Inr (DbPath ?rel)"
    by blast
  from rel(1) have content: \<open>content = ''{"dbpath":"data"}''\<close>
    by (simp add: exampleEnv_def)
  with rel(2) have d: "DbPath d = ''data''"
    by (auto simp add: exampleEnv_def zeroConfig_def)
  then have not_abs: "\<not> filepath_IsAbs exampleEnv (DbPath d)"
    by (simp add: exampleEnv_def)
  with rel(3) have "filepath_Abs exampleEnv
      (filepath_Join exampleEnv (filepath_Dir exampleEnv ''/a/b/config.json'') (DbPath d))
    = Inr ''/a/b/data''"
    by simp
  with rel(1,2) d not_abs have first: "\<exists>content d.
        os_Open exampleEnv ''/a/b/config.json'' = Inr content
        \<and> json_Decode exampleEnv content zeroConfig = (d, None)
        \<and> DbPath d = ''data'' \<and> \<not> filepath_IsAbs exampleEnv (DbPath d)
        \<and> filepath_Abs exampleEnv
              (filepath_Join exampleEnv (filepath_Dir exampleEnv ''/a/b/config.json'') (DbPath d))
            = Inr ''/a/b/data''"
    by blast
  from LoadFromFile_resolves_dbpath [OF load_abs]
  obtain content' d' where ab:
    "os_Open exampleEnv ''/a/b/abs.json'' = Inr content'"
    "json_Decode exampleEnv content' zeroConfig = (d', None)"
    by blast
  from ab(1) have \<open>content' = ''{"dbpath":"/abs/data"}''\<close>
    by (simp add: exampleEnv_def)
  with ab(2) have d': "DbPath d' = ''/abs/data''"
    by (auto simp add: exampleEnv_def zeroConfig_def)
  then have "filepath_IsAbs exampleEnv (DbPath d')"
    by (simp add: exampleEnv_def)
  with ab d' have second: "\<exists>content d.
        os_Open exampleEnv ''/a/b/abs.json'' = Inr content
        \<and> json_Decode exampleEnv content zeroConfig = (d, None)
        \<and> DbPath d = ''/abs/data'' \<and> filepath_IsAbs exampleEnv (DbPath d)"
    by blast
  from load_rel first load_abs second show ?thesis
    by blast
qed

text \<open>
  Claim C9. After a successful \<^verbatim>\<open>LoadFromFile\<close>: the title is \<^verbatim>\<open>Hound\<close> when the
  decoded title was empty, the number of concurrent indexers is 2 when the decoded number
  was zero, and the health-check URI is \<^verbatim>\<open>/healthz\<close> when the decoded one was empty;
  any other decoded value of the three fields is kept.
\<close>
theorem LoadFromFile_config_defaults:
  assumes "LoadFromFile e c filename = Return (c', None)"
  shows "\<exists>content d.
      os_Open e filename = Inr content \<and> json_Decode e content c = (d, None)
      \<and> Title c' = (if Title d = [] then ''Hound'' else Title d)
      \<and> MaxConcurrentIndexers c' =
          (if MaxConcurrentIndexers d = 0 then 2 else MaxConcurrentIndexers d)
      \<and> HealthCheckURI c' = (if HealthCheckURI d = [] then ''/healthz'' else HealthCheckURI d)"
  using LoadFromFile_success [OF assms]
  unfolding defaultTitle_def defaultMaxConcurrentIndexers_def defaultHealthCheckURI_def
  by blast

theorem LoadFromFile_config_defaults_witness:
  "LoadFromFile exampleEnv zeroConfig ''/a/b/config.json'' =
     Return (\<lparr>DbPath = ''/a/b/data'', Title = ''Hound'', Repos = None,
        MaxConcurrentIndexers = 2, HealthCheckURI = ''/healthz''\<rparr>, None)
   \<and> LoadFromFile exampleEnv
       (zeroConfig\<lparr>Title := ''Code'', MaxConcurrentIndexers := 5, HealthCheckURI := ''/ok''\<rparr>)
       ''/a/b/config.json'' =
     Return (\<lparr>DbPath = ''/a/b/data'', Title = ''Code'', Repos = None,
        MaxConcurrentIndexers = 5, HealthCheckURI = ''/ok''\<rparr>, None)
   \<and> (\<exists>content d.
        os_Open exampleEnv ''/a/b/config.json'' = Inr content
        \<and> json_Decode exampleEnv content zeroConfig = (d, None)
        \<and> Title d = [] \<and> MaxConcurrentIndexers d = 0 \<and> HealthCheckURI d = [])
   \<and> (\<exists>content d.
        os_Open exampleEnv ''/a/b/config.json'' = Inr content
        \<and> json_Decode exampleEnv content
             (zeroConfig\<lparr>Title := ''Code'', MaxConcurrentIndexers := 5, HealthCheckURI := ''/ok''\<rparr>)
            = (d, None)
        \<and> Title d = ''Code'' \<and> MaxConcurrentIndexers d = 5 \<and> HealthCheckURI d = ''/ok'')"
proof -
  let ?given = "zeroConfig\<lparr>Title := ''Code'', MaxConcurrentIndexers := 5, HealthCheckURI := ''/ok''\<rparr>"
  let ?dflt = "\<lparr>DbPath = ''/a/b/data'', Title = ''Hound'', Repos = None,
        MaxConcurrentIndexers = 2, HealthCheckURI = ''/healthz''\<rparr>"
  let ?kept = "\<lparr>DbPath = ''/a/b/data'', Title = ''Code'', Repos = None,
        MaxConcurrentIndexers = 5, HealthCheckURI = ''/ok''\<rparr>"
  have load_zero: "LoadFromFile exampleEnv zeroConfig ''/a/b/config.json'' = Return (?dflt, None)"
    by (simp add: LoadFromFile_def exampleEnv_def zeroConfig_def initConfig_def Let_def
        defaultTitle_def defaultMaxConcurrentIndexers_def defaultHealthCheckURI_def)
  have load_given: "LoadFromFile exampleEnv ?given ''/a/b/config.json'' = Return (?kept, None)"
    by (simp add: LoadFromFile_def exampleEnv_def zeroConfig_def initConfig_def Let_def
        defaultTitle_def defaultMaxConcurrentIndexers_def defaultHealthCheckURI_def)
  from LoadFromFile_config_defaults [OF load_zero]
  obtain content d where zero:
    "os_Open exampleEnv ''/a/b/config.json'' = Inr content"
    "json_Decode exampleEnv content zeroConfig = (d, None)"
    by blast
  from zero(1) have \<open>content = ''{"dbpath":"data"}''\<close>
    by (simp add: exampleEnv_def)
  with zero(2) have "Title d = [] \<and> MaxConcurrentIndexers d = 0 \<and> HealthCheckURI d = []"
    by (auto simp add: exampleEnv_def zeroConfig_def)
  with zero have first: "\<exists>content d.
        os_Open exampleEnv ''/a/b/config.json'' = Inr content
        \<and> json_Decode exampleEnv content zeroConfig = (d, None)
        \<and> Title d = [] \<and> MaxConcurrentIndexers d = 0 \<and> HealthCheckURI d = []"
    by blast
  from LoadFromFile_config_defaults [OF load_given]
  obtain content' d' where given:
    "os_Open exampleEnv ''/a/b/config.json'' = Inr content'"
    "json_Decode exampleEnv content' ?given = (d', None)"
    by blast
  from given(1) have \<open>content' = ''{"dbpath":"data"}''\<close>
    by (simp add: exampleEnv_def)
  with given(2)
  have "Title d' = ''Code'' \<and> MaxConcurrentIndexers d' = 5 \<and> HealthCheckURI d' = ''/ok''"
    by (auto simp add: exampleEnv_def zeroConfig_def)
  with given have second: "\<exists>content d.
        os_Open exampleEnv ''/a/b/config.json'' = Inr content
        \<and> json_Decode exampleEnv content ?given = (d, None)
        \<and> Title d = ''Code'' \<and> MaxConcurrentIndexers d = 5 \<and> HealthCheckURI d = ''/ok''"
    by blast
  from load_zero load_given first second show ?thesis
    by blast
qed

subsection \<open>The JSON projection\<close>

lemma encodeSecret_eq:
  "encodeSecret s = Inr (case s of None \<Rightarrow> ''null'' | Some m \<Rightarrow> ''{}'')"
  by (simp add: encodeSecret_def MarshalJSON_def split: option.split)

lemma encodeSecret_map_option: "encodeSecret (map_option g s) = encodeSecret s"
  by (cases s) (simp_all add: encodeSecret_eq)

lemma encodeRepo_eq:
  \<open>encodeRepo r =
       Inr (''{"url":'' @ appendString (URL r)
         @ '',"ms-between-poll":'' @ formatInt (MsBetweenPolls r)
         @ '',"vcs":'' @ appendString (Vcs r)
         @ '',"vcs-config":'' @ (case VcsConfigMessage r of None \<Rightarrow> ''null'' | Some m \<Rightarrow> ''{}'')
         @ '',"url-pattern":''
         @ (case URLPattern r of None \<Rightarrow> ''null'' | Some p \<Rightarrow> encodeURLPattern p)
         @ '',"exclude-dot-files":'' @ encodeBool (ExcludeDotFiles r)
         @ '',"enable-poll-updates":'' @ encodeBoolPtr (EnablePollUpdates r)
         @ '',"enable-push-updates":'' @ encodeBoolPtr (EnablePushUpdates r)
         @ ''}'')\<close>
  by (simp add: encodeRepo_def encodeSecret_eq)

lemma encodeRepo_withSecret: "encodeRepo (withSecret g r) = encodeRepo r"
  by (cases "VcsConfigMessage r") (simp_all add: encodeRepo_eq withSecret_def)

lemma encodeRepoPtr_withSecret:
  "encodeRepoPtr (map_option (withSecret g) p) = encodeRepoPtr p"
  by (cases p) (simp_all add: encodeRepoPtr_def encodeRepo_withSecret)

lemma encodeEntries_withSecrets:
  "encodeEntries (map (\<lambda>(k, p). (k, map_option (withSecret (f k)) p)) kvs) = encodeEntries kvs"
  by (induction kvs rule: encodeEntries.induct)
    (auto simp add: encodeRepoPtr_withSecret split: sum.splits)

lemma insort_key_fst_map:
  assumes "\<And>x. fst (h x) = fst x"
  shows "insort_key fst (h x) (map h xs) = map h (insort_key fst x xs)"
  by (induction xs) (simp_all add: assms)

lemma sort_key_fst_map:
  assumes "\<And>x. fst (h x) = fst x"
  shows "sort_key fst (map h xs) = map h (sort_key fst xs)"
  by (induction xs) (simp_all add: insort_key_fst_map [OF assms])

lemma json_Marshal_withSecrets: "json_Marshal (withSecrets f m) = json_Marshal m"
proof (cases m)
  case None
  then show ?thesis by (simp add: withSecrets_def)
next
  case (Some kvs)
  let ?h = "\<lambda>(k, p). (k, map_option (withSecret (f k)) p)"
  have "sort_key fst (map ?h kvs) = map ?h (sort_key fst kvs)"
    by (rule sort_key_fst_map) (simp add: case_prod_beta)
  with Some show ?thesis
    by (simp add: withSecrets_def json_Marshal_def encodeEntries_withSecrets)
qed

lemma encodeRepo_never_fails: "\<exists>s. encodeRepo r = Inr s"
  by (simp add: encodeRepo_eq)

lemma encodeEntries_never_fails: "\<exists>s. encodeEntries kvs = Inr s"
proof (induction kvs rule: encodeEntries.induct)
  case 1
  then show ?case by simp
next
  case (2 k v kvs)
  obtain val where "encodeRepoPtr v = Inr val"
    using encodeRepo_never_fails by (cases v) (auto simp add: encodeRepoPtr_def)
  with 2 show ?case by auto
qed

lemma json_Marshal_never_fails: "\<exists>s. json_Marshal m = Inr s"
proof (cases m)
  case None
  then show ?thesis by (simp add: json_Marshal_def)
next
  case (Some kvs)
  obtain body where "encodeEntries (sort_key fst kvs) = Inr body"
    using encodeEntries_never_fails by blast
  with Some show ?thesis by (simp add: json_Marshal_def)
qed

lemma joinComma_Cons:
  "joinComma (x # xs) = x @ (if xs = [] then [] else '','' @ joinComma xs)"
  by (cases xs) simp_all

lemma encodeRepoPtr_eq:
  \<open>encodeRepoPtr q =
     Inr (case q of
            None \<Rightarrow> ''null''
          | Some r \<Rightarrow>
              ''{"url":'' @ appendString (URL r)
                     @ '',"ms-between-poll":'' @ formatInt (MsBetweenPolls r)
                     @ '',"vcs":'' @ appendString (Vcs r)
                     @ '',"vcs-config":''
                     @ (case VcsConfigMessage r of None \<Rightarrow> ''null'' | Some m \<Rightarrow> ''{}'')
                     @ '',"url-pattern":''
                     @ (case URLPattern r of None \<Rightarrow> ''null'' | Some p \<Rightarrow> encodeURLPattern p)
                     @ '',"exclude-dot-files":'' @ encodeBool (ExcludeDotFiles r)
                     @ '',"enable-poll-updates":'' @ encodeBoolPtr (EnablePollUpdates r)
                     @ '',"enable-push-updates":'' @ encodeBoolPtr (EnablePushUpdates r)
                     @ ''}'')\<close>
  by (cases q) (simp_all add: encodeRepoPtr_def encodeRepo_eq)

lemma encodeEntries_eq:
  assumes "\<And>q. encodeRepoPtr q = Inr (g q)"
  shows "encodeEntries kvs =
    Inr (joinComma (map (\<lambda>(k, q). appendString k @ '':'' @ g q) kvs))"
  by (induction kvs rule: encodeEntries.induct) (simp_all add: assms joinComma_Cons)

text \<open>
  Claim C2, as amended. For every Config, \<^verbatim>\<open>ToJSONString\<close> returns no error and the
  JSON of the repository map, and nothing else of the Config: \<^verbatim>\<open>null\<close> for the nil
  map, otherwise one member for every entry of the map, in the order of the names, each
  the name and the object of the repository (\<^verbatim>\<open>null\<close> for a nil repository). In the
  object of a repository the field \<^verbatim>\<open>vcs-config\<close> is \<^verbatim>\<open>{}\<close> when the repository has
  an envelope and \<^verbatim>\<open>null\<close> when it has none; the bytes in the envelope are not part of
  the output. So the output does not depend on them: it is the output for the zero
  Config with the same repositories whose envelopes hold any other bytes.
\<close>
theorem ToJSONString_independent_of_secrets:
  \<open>ToJSONString c =
     ((case Repos c of
         None \<Rightarrow> ''null''
       | Some kvs \<Rightarrow>
           ''{'' @ joinComma (map (\<lambda>(k, q). appendString k @ '':'' @
              (case q of
                 None \<Rightarrow> ''null''
               | Some r \<Rightarrow>
                   ''{"url":'' @ appendString (URL r)
                     @ '',"ms-between-poll":'' @ formatInt (MsBetweenPolls r)
                     @ '',"vcs":'' @ appendString (Vcs r)
                     @ '',"vcs-config":''
                     @ (case VcsConfigMessage r of None \<Rightarrow> ''null'' | Some m \<Rightarrow> ''{}'')
                     @ '',"url-pattern":''
                     @ (case URLPattern r of None \<Rightarrow> ''null'' | Some p \<Rightarrow> encodeURLPattern p)
                     @ '',"exclude-dot-files":'' @ encodeBool (ExcludeDotFiles r)
                     @ '',"enable-poll-updates":'' @ encodeBoolPtr (EnablePollUpdates r)
                     @ '',"enable-push-updates":'' @ encodeBoolPtr (EnablePushUpdates r)
                     @ ''}'')) (sort_key fst kvs)) @ ''}''), None)
   \<and> ToJSONString c = ToJSONString (zeroConfig\<lparr>Repos := withSecrets f (Repos c)\<rparr>)
   \<and> snd (ToJSONString c) = None
   \<and> encodeRepo r =
       Inr (''{"url":'' @ appendString (URL r)
                     @ '',"ms-between-poll":'' @ formatInt (MsBetweenPolls r)
                     @ '',"vcs":'' @ appendString (Vcs r)
                     @ '',"vcs-config":''
                     @ (case VcsConfigMessage r of None \<Rightarrow> ''null'' | Some m \<Rightarrow> ''{}'')
                     @ '',"url-pattern":''
                     @ (case URLPattern r of None \<Rightarrow> ''null'' | Some p \<Rightarrow> encodeURLPattern p)
                     @ '',"exclude-dot-files":'' @ encodeBool (ExcludeDotFiles r)
                     @ '',"enable-poll-updates":'' @ encodeBoolPtr (EnablePollUpdates r)
                     @ '',"enable-push-updates":'' @ encodeBoolPtr (EnablePushUpdates r)
                     @ ''}'')\<close>
proof -
  note entries = encodeEntries_eq [OF encodeRepoPtr_eq]
  have out: \<open>ToJSONString c =
     ((case Repos c of
         None \<Rightarrow> ''null''
       | Some kvs \<Rightarrow>
           ''{'' @ joinComma (map (\<lambda>(k, q). appendString k @ '':'' @
              (case q of
                 None \<Rightarrow> ''null''
               | Some r \<Rightarrow>
                   ''{"url":'' @ appendString (URL r)
                     @ '',"ms-between-poll":'' @ formatInt (MsBetweenPolls r)
                     @ '',"vcs":'' @ appendString (Vcs r)
                     @ '',"vcs-config":''
                     @ (case VcsConfigMessage r of None \<Rightarrow> ''null'' | Some m \<Rightarrow> ''{}'')
                     @ '',"url-pattern":''
                     @ (case URLPattern r of None \<Rightarrow> ''null'' | Some p \<Rightarrow> encodeURLPattern p)
                     @ '',"exclude-dot-files":'' @ encodeBool (ExcludeDotFiles r)
                     @ '',"enable-poll-updates":'' @ encodeBoolPtr (EnablePollUpdates r)
                     @ '',"enable-push-updates":'' @ encodeBoolPtr (EnablePushUpdates r)
                     @ ''}'')) (sort_key fst kvs)) @ ''}''), None)\<close>
    by (cases "Repos c") (simp_all add: ToJSONString_def json_Marshal_def entries)
  have same: "ToJSONString c = ToJSONString (zeroConfig\<lparr>Repos := withSecrets f (Repos c)\<rparr>)"
    by (simp add: ToJSONString_def json_Marshal_withSecrets)
  have no_error: "snd (ToJSONString c) = None"
    by (simp add: out)
  from out same no_error encodeRepo_eq [of r] show ?thesis
    by (simp only: simp_thms)
qed

text \<open>
  The claim as it was stated fails twice. A repository without an envelope has its field
  \<^verbatim>\<open>vcs-config\<close> written as \<^verbatim>\<open>null\<close>, not as \<^verbatim>\<open>{}\<close>. And the output can contain
  the bytes of a payload that occur in it for another reason: with the payload
  \<^verbatim>\<open>true\<close> and the flag \<^verbatim>\<open>exclude-dot-files\<close> set, the output contains \<^verbatim>\<open>true\<close>.
\<close>
theorem ToJSONString_counterexample:
  \<open>ToJSONString (zeroConfig\<lparr>Repos := Some [(''r'', Some (zeroRepo\<lparr>URL := ''u''\<rparr>))]\<rparr>) =
     (''{"r":{"url":"u","ms-between-poll":0,"vcs":"","vcs-config":null,"url-pattern":null,"exclude-dot-files":false,"enable-poll-updates":null,"enable-push-updates":null}}'', None)
   \<and> VcsConfig (zeroRepo\<lparr>URL := ''u'', VcsConfigMessage := Some (Some ''true''),
          ExcludeDotFiles := True\<rparr>) = Some ''true''
   \<and> ToJSONString (zeroConfig\<lparr>Repos := Some [(''r'', Some (zeroRepo\<lparr>URL := ''u'',
          VcsConfigMessage := Some (Some ''true''), ExcludeDotFiles := True\<rparr>))]\<rparr>) =
     (''{"r":{"url":"u","ms-between-poll":0,"vcs":"","vcs-config":{},"url-pattern":null,"exclude-dot-files":true,"enable-poll-updates":null,"enable-push-updates":null}}'', None)
   \<and> Contains ''{"r":{"url":"u","ms-between-poll":0,"vcs":"","vcs-config":{},"url-pattern":null,"exclude-dot-files":true,"enable-poll-updates":null,"enable-push-updates":null}}'' ''true''\<close>
  by code_simp

end
